theory Spec2Isabelle
  imports Complex_Main
begin

section \<open>Python values used by app.py\<close>

text \<open>
  A Python \<^verbatim>\<open>str\<close> is a sequence of Unicode code points; a code point is a natural
  number. \<open>py\<close> turns an ASCII literal of the source into such a sequence.
\<close>

type_synonym ustr = "nat list"

definition py :: "string \<Rightarrow> ustr" where
  "py s = map of_char s"

text \<open>
  \<^verbatim>\<open>str.strip()\<close> without argument removes leading and trailing white space, that is the
  code points for which \<^verbatim>\<open>str.isspace\<close> holds.
\<close>

definition isspace :: "nat \<Rightarrow> bool" where
  "isspace c \<longleftrightarrow>
     (9 \<le> c \<and> c \<le> 13) \<or> (28 \<le> c \<and> c \<le> 32) \<or> c = 133 \<or> c = 160 \<or> c = 5760 \<or>
     (8192 \<le> c \<and> c \<le> 8202) \<or> c = 8232 \<or> c = 8233 \<or> c = 8239 \<or> c = 8287 \<or> c = 12288"

definition strip :: "ustr \<Rightarrow> ustr" where
  "strip s = rev (dropWhile isspace (rev (dropWhile isspace s)))"

text \<open>
  A Python \<^verbatim>\<open>float\<close> is an IEEE 754 double: a finite value, one of the two infinities, or
  not-a-number, which is also what pandas stores in an empty cell. A finite double is
  given by the real number it stands for; the two zeros, which \<^verbatim>\<open>==\<close> does not tell
  apart, are one value.
\<close>

datatype pyfloat = Fin real | PInf | NInf | NaN

text \<open>
  Rounding a positive real to the double grid: the pair (a, e) stands for a times two to
  the power e, and is scaled until a lies between 2^52 and 2^53, or e has reached -1074,
  the exponent of the subnormal doubles.
\<close>

function scale_down :: "real \<Rightarrow> int \<Rightarrow> real \<times> int" where
  "scale_down a e = (if 2 ^ 53 \<le> a then scale_down (a / 2) (e + 1) else (a, e))"
  by pat_completeness auto
termination
proof (relation "measure (\<lambda>(a, e). nat \<lfloor>a\<rfloor>)")
  show "wf (measure (\<lambda>(a, e). nat \<lfloor>a\<rfloor>))" by simp
next
  fix a :: real and e :: int
  assume a: "2 ^ 53 \<le> a"
  then have "1 \<le> \<lfloor>a\<rfloor>" by simp
  moreover have "\<lfloor>a / 2\<rfloor> = \<lfloor>a\<rfloor> div 2"
    using floor_divide_real_eq_div [of 2 a] by simp
  ultimately have "nat \<lfloor>a / 2\<rfloor> < nat \<lfloor>a\<rfloor>" by linarith
  then show "((a / 2, e + 1), (a, e)) \<in> measure (\<lambda>(a, e). nat \<lfloor>a\<rfloor>)" by simp
qed

function scale_up :: "real \<Rightarrow> int \<Rightarrow> real \<times> int" where
  "scale_up a e = (if a < 2 ^ 52 \<and> - 1074 < e then scale_up (a * 2) (e - 1) else (a, e))"
  by pat_completeness auto
termination
  by (relation "measure (\<lambda>(a, e). nat (e + 1074))") auto

text \<open>Rounding to the nearest integer, a tie going to the even one.\<close>

definition round_half_even :: "real \<Rightarrow> int" where
  "round_half_even x =
     (let f = \<lfloor>x\<rfloor>; d = x - of_int f
      in if d < 1 / 2 then f else if 1 / 2 < d then f + 1 else if even f then f else f + 1)"

text \<open>
  The double nearest to a real number, ties to even: what an arithmetic operation on
  doubles returns for its exact result. A result of 2^1024 or more in size overflows to an
  infinity, one below half the least subnormal becomes zero.
\<close>

definition round_double :: "real \<Rightarrow> pyfloat" where
  "round_double x =
     (if x = 0 then Fin 0
      else
        case scale_up (fst (scale_down \<bar>x\<bar> 0)) (snd (scale_down \<bar>x\<bar> 0)) of
          (a, e) \<Rightarrow>
            let v = (if 0 \<le> e then of_int (round_half_even a) * 2 ^ nat e
                     else of_int (round_half_even a) / 2 ^ nat (- e))
            in if 2 ^ 1024 \<le> v then (if x < 0 then NInf else PInf)
               else Fin (if x < 0 then - v else v))"

text \<open>\<^verbatim>\<open>x / 100.0\<close>, the division of line 89.\<close>

fun fl_div_100 :: "pyfloat \<Rightarrow> pyfloat" where
  "fl_div_100 (Fin a) = round_double (a / 100)"
| "fl_div_100 PInf = PInf"
| "fl_div_100 NInf = NInf"
| "fl_div_100 NaN = NaN"

text \<open>\<^verbatim>\<open>a * x\<close> for a finite double \<open>a\<close>, the multiplication of line 89.\<close>

fun fl_mul :: "real \<Rightarrow> pyfloat \<Rightarrow> pyfloat" where
  "fl_mul a (Fin b) = round_double (a * b)"
| "fl_mul a PInf = (if 0 < a then PInf else if a < 0 then NInf else NaN)"
| "fl_mul a NInf = (if 0 < a then NInf else if a < 0 then PInf else NaN)"
| "fl_mul a NaN = NaN"

text \<open>Truth value of a float: zero is false, everything else (also not-a-number) is true.\<close>

fun fl_truthy :: "pyfloat \<Rightarrow> bool" where
  "fl_truthy (Fin a) = (a \<noteq> 0)"
| "fl_truthy PInf = True"
| "fl_truthy NInf = True"
| "fl_truthy NaN = True"

text \<open>A cell of the DataFrame holds a string or a float.\<close>

datatype cell = Str ustr | Flt pyfloat

text \<open>
  What app.py takes from outside the repository: the scorer \<^verbatim>\<open>fuzz.WRatio\<close>, the parser
  \<^verbatim>\<open>float(s)\<close> of a string (\<open>None\<close> when it raises \<^verbatim>\<open>ValueError\<close>), the format
  \<^verbatim>\<open>{x:.2f}\<close>, the conversion \<^verbatim>\<open>str(x)\<close> of a float inside an f-string, and the clock
  reading \<^verbatim>\<open>datetime.now().strftime('%Y-%m-%d %H:%M:%S')\<close>.
\<close>

record ext =
  WRatio :: "ustr \<Rightarrow> ustr \<Rightarrow> real"
  py_float :: "ustr \<Rightarrow> pyfloat option"
  fmt_2f :: "pyfloat \<Rightarrow> ustr"
  str_float :: "pyfloat \<Rightarrow> ustr"
  now_strftime :: ustr

section \<open>Matching\<close>

text \<open>
  Modelled from the spec: \<^verbatim>\<open>process.extractOne\<close> belongs to the rapidfuzz library, which is
  not under src/. Following section 4.1 it scores every candidate, selects the one with the
  maximum score and breaks ties by the earliest position; the result is the triple
  (choice, score, index), and \<open>None\<close> when there is no candidate, which is the case the
  source tests with \<^verbatim>\<open>if res:\<close>.
\<close>

fun extractOne_scan ::
  "(ustr \<Rightarrow> real) \<Rightarrow> ustr list \<Rightarrow> nat \<Rightarrow> (ustr \<times> real \<times> nat) option \<Rightarrow> (ustr \<times> real \<times> nat) option"
where
  "extractOne_scan sc [] i res = res"
| "extractOne_scan sc (c # cs) i res =
     extractOne_scan sc cs (Suc i)
       (case res of
          None \<Rightarrow> Some (c, sc c, i)
        | Some (b, bs, bi) \<Rightarrow> if bs < sc c then Some (c, sc c, i) else Some (b, bs, bi))"

definition extractOne :: "ext \<Rightarrow> ustr \<Rightarrow> ustr list \<Rightarrow> (ustr \<times> real \<times> nat) option" where
  "extractOne E query choices = extractOne_scan (WRatio E query) choices 0 None"

text \<open>\<^verbatim>\<open>find_best_match(user_input, choices, score_cutoff=50)\<close>, lines 48 to 56.\<close>

definition find_best_match :: "ext \<Rightarrow> ustr \<Rightarrow> ustr list \<Rightarrow> real \<Rightarrow> ustr option \<times> real" where
  "find_best_match E user_input choices score_cutoff =
     (case extractOne E user_input choices of
        Some (match, score, _) \<Rightarrow>
          if score \<ge> score_cutoff then (Some match, score) else (None, score)
      | None \<Rightarrow> (None, 0))"

text \<open>
  Modelled from the spec: \<^verbatim>\<open>process.extract\<close> belongs to the rapidfuzz library, which is not
  under src/. Following section 4.1 (\<open>topK\<close>) it scores every candidate, orders the triples
  (choice, score, index) by descending score with a stable sort, so that equal scores stay
  in the order of the candidate list, and keeps the first \<open>limit\<close> of them; there is no
  score cutoff.
\<close>

definition process_extract :: "ext \<Rightarrow> ustr \<Rightarrow> ustr list \<Rightarrow> nat \<Rightarrow> (ustr \<times> real \<times> nat) list" where
  "process_extract E query choices limit =
     take limit
       (sort_key (\<lambda>(c, s, i). - s)
          (map (\<lambda>(i, c). (c, WRatio E query c, i)) (enumerate 0 choices)))"

text \<open>
  The spec's Matcher contract (section 4.1), written from the spec's words to be compared
  with \<open>find_best_match\<close>: an empty candidate list fails with \<open>InvalidInput\<close>; otherwise
  the earliest candidate of maximum score is the match when that score reaches the cutoff
  50, and there is no match, with the maximum score, when it does not.
\<close>

datatype failure = InvalidInput

definition match_spec :: "ext \<Rightarrow> ustr \<Rightarrow> ustr list \<Rightarrow> failure + (ustr option \<times> real)" where
  "match_spec E query candidates =
     (if candidates = [] then Inl InvalidInput
      else
        let m = Max (WRatio E query ` set candidates)
        in if 50 \<le> m then Inr (find (\<lambda>c. WRatio E query c = m) candidates, m)
           else Inr (None, m))"

section \<open>The catalog\<close>

text \<open>
  The DataFrame read from waste\_data.csv. The column \<^verbatim>\<open>Waste Type\<close>, which line 35 reads
  without a check, holds the names, which are strings; \<open>df_columns\<close> names the other
  columns and every row carries its name and one cell for each of them.
\<close>

record dataframe =
  df_columns :: "ustr list"
  df_rows :: "(ustr \<times> cell list) list"

type_synonym pydict = "(ustr \<times> cell) list"

text \<open>\<^verbatim>\<open>row.to_dict()\<close>, and \<^verbatim>\<open>d.get(k, None)\<close> as \<open>map_of d k\<close>.\<close>

definition to_dict :: "dataframe \<Rightarrow> ustr \<times> cell list \<Rightarrow> pydict" where
  "to_dict df r = (py ''Waste Type'', Str (fst r)) # zip (df_columns df) (snd r)"

text \<open>\<^verbatim>\<open>waste_list = list(df["Waste Type"].values)\<close>, line 35.\<close>

definition waste_list :: "dataframe \<Rightarrow> ustr list" where
  "waste_list df = map fst (df_rows df)"

datatype py_error = IndexError

text \<open>
  \<^verbatim>\<open>df[df["Waste Type"] == matched_type].iloc[0].to_dict()\<close>, line 73: the rows whose name
  equals the matched type, in the order of the table, and the first of them;
  \<^verbatim>\<open>iloc[0]\<close> raises \<^verbatim>\<open>IndexError\<close> when there is none.
\<close>

definition waste_row :: "dataframe \<Rightarrow> ustr \<Rightarrow> py_error + pydict" where
  "waste_row df matched_type =
     (case filter (\<lambda>r. fst r = matched_type) (df_rows df) of
        [] \<Rightarrow> Inl IndexError
      | r # _ \<Rightarrow> Inr (to_dict df r))"

text \<open>
  \<^verbatim>\<open>df.append(new_row, ignore_index=True)\<close>, line 152, for a dictionary with the name and the
  other fields: keys that are not yet columns become new columns at the end, cells without
  a value are filled with not-a-number, and the new row comes last.
\<close>

definition df_append :: "dataframe \<Rightarrow> ustr \<Rightarrow> pydict \<Rightarrow> dataframe" where
  "df_append df name items =
     (let new_cols = filter (\<lambda>k. k \<notin> set (py ''Waste Type'' # df_columns df)) (map fst items);
          cols = df_columns df @ new_cols
      in \<lparr>df_columns = cols,
          df_rows =
            map (\<lambda>(n, vs). (n, vs @ map (\<lambda>_. Flt NaN) new_cols)) (df_rows df) @
            [(name, map (\<lambda>k. case map_of items k of Some v \<Rightarrow> v | None \<Rightarrow> Flt NaN) cols)]\<rparr>)"

section \<open>The recommendation\<close>

datatype matcher_call = ExtractOne ustr "ustr list" | Extract ustr "ustr list" nat

text \<open>
  Lines 58 to 69: the values of \<^verbatim>\<open>matched_type\<close> and \<^verbatim>\<open>match_score\<close>, and the calls of the
  matcher made on the way. \<^verbatim>\<open>if mt:\<close> holds for a match that is not the empty string.
\<close>

definition select_match ::
  "ext \<Rightarrow> ustr \<Rightarrow> ustr \<Rightarrow> ustr list \<Rightarrow> (ustr option \<times> real option) \<times> matcher_call list"
where
  "select_match E selected user_text names =
     (if selected \<noteq> [] then ((Some selected, Some 100), [])
      else if strip user_text \<noteq> [] then
        (case find_best_match E (strip user_text) names 50 of
           (mt, score) \<Rightarrow>
             ((if mt \<noteq> None \<and> mt \<noteq> Some [] then mt else None, Some score),
              [ExtractOne (strip user_text) names]))
      else ((None, None), []))"

text \<open>
  Lines 81 to 89: the yield percentage and the estimate \<^verbatim>\<open>qty * (yield_pct / 100.0)\<close>, computed
  in doubles. The quantity comes from the number input and is a finite double.
\<close>

definition yield_pct :: "ext \<Rightarrow> cell option \<Rightarrow> pyfloat" where
  "yield_pct E yp =
     (case yp of
        None \<Rightarrow> Fin 40
      | Some (Flt x) \<Rightarrow> x
      | Some (Str s) \<Rightarrow> (case py_float E s of Some x \<Rightarrow> x | None \<Rightarrow> Fin 40))"

definition est_compost :: "ext \<Rightarrow> pydict \<Rightarrow> real \<Rightarrow> pyfloat option" where
  "est_compost E row qty =
     (if qty \<noteq> 0 \<and> qty > 0
      then Some (fl_mul qty (fl_div_100 (yield_pct E (map_of row (py ''Yield_pct'')))))
      else None)"

text \<open>
  The spec's yield percentage (section 4.2), written from the spec's words: the record's
  value when it is present and a valid positive number, the default 40 otherwise.
\<close>

definition yield_pct_spec :: "ext \<Rightarrow> cell option \<Rightarrow> pyfloat" where
  "yield_pct_spec E yp =
     (case yp of
        Some (Flt (Fin x)) \<Rightarrow> if 0 < x then Fin x else Fin 40
      | Some (Str s) \<Rightarrow>
          (case py_float E s of Some (Fin x) \<Rightarrow> if 0 < x then Fin x else Fin 40 | _ \<Rightarrow> Fin 40)
      | _ \<Rightarrow> Fin 40)"

text \<open>Lines 94 to 108. \<^verbatim>\<open>sep.join(lines)\<close> puts the separator between the lines.\<close>

fun join :: "ustr \<Rightarrow> ustr list \<Rightarrow> ustr" where
  "join sep [] = []"
| "join sep [l] = l"
| "join sep (l # ls) = l @ sep @ join sep ls"

fun str_cell :: "ext \<Rightarrow> cell \<Rightarrow> ustr" where
  "str_cell E (Str s) = s"
| "str_cell E (Flt x) = str_float E x"

definition get_str :: "ext \<Rightarrow> pydict \<Rightarrow> ustr \<Rightarrow> ustr" where
  "get_str E d k = (case map_of d k of None \<Rightarrow> [] | Some v \<Rightarrow> str_cell E v)"

definition report_lines :: "ext \<Rightarrow> pydict \<Rightarrow> real option \<Rightarrow> pyfloat option \<Rightarrow> ustr list" where
  "report_lines E wt_row qty est =
     [py ''Farm Waste '' @ [8594] @ py '' Fertilizer Advisor Report'',
      py ''Generated: '' @ now_strftime E,
      [],
      py ''Waste Type: '' @ get_str E wt_row (py ''Waste Type''),
      py ''Best Use: '' @ get_str E wt_row (py ''Best Use''),
      py ''Compost Time: '' @ get_str E wt_row (py ''Compost Time''),
      py ''Nutrient: '' @ get_str E wt_row (py ''Nutrient''),
      py ''Tips: '' @ get_str E wt_row (py ''Tips'')] @
     (case (qty, est) of
        (Some q, Some e) \<Rightarrow>
          if q \<noteq> 0 \<and> fl_truthy e
          then [[],
                py ''Input Quantity: '' @ fmt_2f E (Fin q) @ py '' kg'',
                py ''Estimated Compost Output: '' @ fmt_2f E e @ py '' kg'']
          else []
      | _ \<Rightarrow> [])"

text \<open>
  Line 108 joins with the Python literal \<^verbatim>\<open>"\\n"\<close>: a backslash (code point 92) followed by
  the letter n (code point 110).
\<close>

definition format_report :: "ext \<Rightarrow> pydict \<Rightarrow> real option \<Rightarrow> pyfloat option \<Rightarrow> ustr" where
  "format_report E wt_row qty est = join [92, 110] (report_lines E wt_row qty est)"

text \<open>
  The report as section 6 of the spec words it: the same lines joined by the newline
  character (code point 10).
\<close>

definition format_report_spec :: "ext \<Rightarrow> pydict \<Rightarrow> real option \<Rightarrow> pyfloat option \<Rightarrow> ustr" where
  "format_report_spec E wt_row qty est = join [10] (report_lines E wt_row qty est)"

text \<open>
  Lines 71 to 122: what the page shows. \<open>Matched\<close> carries the matched type, the score, the
  row, the estimate and the text of the report; \<open>Unmatched\<close> carries the suggestions.
\<close>

datatype outcome =
    Matched ustr "real option" pydict "pyfloat option" ustr
  | EmptyInput
  | Unmatched "(ustr \<times> real \<times> nat) list"

definition recommend ::
  "ext \<Rightarrow> dataframe \<Rightarrow> ustr \<Rightarrow> ustr \<Rightarrow> real \<Rightarrow> py_error + outcome \<times> matcher_call list"
where
  "recommend E df selected user_text qty =
     (case select_match E selected user_text (waste_list df) of
        ((matched_type, match_score), calls) \<Rightarrow>
          if matched_type \<noteq> None \<and> matched_type \<noteq> Some [] then
            (case waste_row df (the matched_type) of
               Inl e \<Rightarrow> Inl e
             | Inr row \<Rightarrow>
                 let est = est_compost E row qty;
                     report_text =
                       format_report E row
                         (if qty > 0 then Some qty else None)
                         (case est of
                            Some e \<Rightarrow> if fl_truthy e then Some e else None
                          | None \<Rightarrow> None)
                 in Inr (Matched (the matched_type) match_score row est report_text, calls))
          else if strip user_text = [] then Inr (EmptyInput, calls)
          else
            Inr (Unmatched (process_extract E (strip user_text) (waste_list df) 5),
                 calls @ [Extract (strip user_text) (waste_list df) 5]))"

text \<open>The candidate list a call of the matcher was given.\<close>

fun call_choices :: "matcher_call \<Rightarrow> ustr list" where
  "call_choices (ExtractOne query choices) = choices"
| "call_choices (Extract query choices limit) = choices"

text \<open>
  Lines 24 to 33: \<^verbatim>\<open>load_dataset\<close> returns an empty DataFrame when the file does not exist,
  and the script stops when the DataFrame is empty, before anything else runs. As the name
  column always exists here, the DataFrame is empty when it has no row.
\<close>

definition load_dataset :: "dataframe option \<Rightarrow> dataframe" where
  "load_dataset file =
     (case file of None \<Rightarrow> \<lparr>df_columns = [], df_rows = []\<rparr> | Some table \<Rightarrow> table)"

datatype page = Stopped | Shown "py_error + outcome \<times> matcher_call list"

definition run_script :: "ext \<Rightarrow> dataframe option \<Rightarrow> ustr \<Rightarrow> ustr \<Rightarrow> real \<Rightarrow> page" where
  "run_script E file selected user_text qty =
     (let df = load_dataset file
      in if df_rows df = [] then Stopped
         else Shown (recommend E df selected user_text qty))"

section \<open>Adding a waste type\<close>

record add_form =
  new_waste :: ustr
  new_best_use :: ustr
  new_compost :: ustr
  new_nutrient :: ustr
  new_tips :: ustr
  new_yield :: ustr

text \<open>
  The state the button handler works on: the DataFrame \<^verbatim>\<open>df\<close> of the script and the table
  stored in waste\_data.csv (\<open>None\<close> when the file does not exist).
\<close>

record app_state =
  session_df :: dataframe
  csv_file :: "dataframe option"

datatype message = St_error ustr | St_success ustr

text \<open>Lines 136 to 154, for a pressed button.\<close>

definition add_new_waste :: "ext \<Rightarrow> add_form \<Rightarrow> app_state \<Rightarrow> message \<times> app_state" where
  "add_new_waste E f s =
     (if strip (new_waste f) = [] then (St_error (py ''Enter a waste type name.''), s)
      else
        let new_row =
              [(py ''Best Use'', Str (strip (new_best_use f))),
               (py ''Compost Time'', Str (strip (new_compost f))),
               (py ''Nutrient'', Str (strip (new_nutrient f))),
               (py ''Tips'', Str (strip (new_tips f)))] @
              (if strip (new_yield f) \<noteq> [] then
                 (case py_float E (strip (new_yield f)) of
                    Some v \<Rightarrow> [(py ''Yield_pct'', Flt v)]
                  | None \<Rightarrow> [])
               else []);
            df' = df_append (session_df s) (strip (new_waste f)) new_row
        in (St_success
              (py ''Added '' @ [39] @ strip (new_waste f) @ [39] @
               py '' to dataset and saved to waste_data.csv. Refresh page to see changes.''),
            s\<lparr>session_df := df', csv_file := Some df'\<rparr>))"

section \<open>Sample inputs\<close>

text \<open>
  An instance of the outside functions and a catalog of three names, on which the
  definitions are evaluated. The scores are sample values, not those of rapidfuzz.
\<close>

definition sample_ext :: ext where
  "sample_ext =
     \<lparr>WRatio = (\<lambda>q c. if c = py ''Cow Manure'' then (if q = py ''cow dung'' then 50 else 10)
                       else if c = py ''Banana Peels'' then 45 else 20),
      py_float = (\<lambda>s. if s = py ''45'' then Some (Fin 45) else None),
      fmt_2f = (\<lambda>x. if x = Fin 100 then py ''100.00'' else py ''45.00''),
      str_float = (\<lambda>x. if x = NaN then py ''nan'' else py ''45.0''),
      now_strftime = py ''2024-01-01 12:00:00''\<rparr>"

definition sample_names :: "ustr list" where
  "sample_names = [py ''Cow Manure'', py ''Banana Peels'', py ''Rice Husk'']"

text \<open>A catalog in which the name Cow Manure occurs twice.\<close>

definition dup_df :: dataframe where
  "dup_df =
     \<lparr>df_columns = [py ''Best Use''],
      df_rows = [(py ''Rice Husk'', [Str (py ''Mulching'')]),
                 (py ''Cow Manure'', [Str (py ''Compost'')]),
                 (py ''Cow Manure'', [Str (py ''Biogas'')])]\<rparr>"

text \<open>The dictionary of a row that has no yield entry.\<close>

definition husk_row :: pydict where
  "husk_row = [(py ''Waste Type'', Str (py ''Rice Husk'')), (py ''Best Use'', Str (py ''Mulching''))]"

text \<open>A catalog of seven names, more than the five suggestions shown.\<close>

definition seven_names :: "ustr list" where
  "seven_names = [py ''Cow Manure'', py ''Banana Peels'', py ''Rice Husk'', py ''Straw'',
                  py ''Leaves'', py ''Sawdust'', py ''Corn Stalks'']"

text \<open>
  Two fillings of the form, one with a name of two spaces and one with the name Rice Husk
  between spaces, and a state in which the file holds the table of the session.
\<close>

definition blank_form :: add_form where
  "blank_form =
     \<lparr>new_waste = py ''  '', new_best_use = py ''Mulching'', new_compost = py ''3 months'',
      new_nutrient = py ''Carbon'', new_tips = py ''Keep dry'', new_yield = py ''45''\<rparr>"

definition husk_form :: add_form where
  "husk_form =
     \<lparr>new_waste = py '' Rice Husk '', new_best_use = py ''Mulching'', new_compost = py ''3 months'',
      new_nutrient = py ''Carbon'', new_tips = py ''Keep dry'', new_yield = py ''45''\<rparr>"

definition sample_state :: app_state where
  "sample_state = \<lparr>session_df = dup_df, csv_file = Some dup_df\<rparr>"

section \<open>Notions used in the proofs\<close>

text \<open>The scored candidates before sorting, as triples (choice, score, index).\<close>

definition scored :: "ext \<Rightarrow> ustr \<Rightarrow> ustr list \<Rightarrow> (ustr \<times> real \<times> nat) list" where
  "scored E q cs = map (\<lambda>(i, c). (c, WRatio E q c, i)) (enumerate 0 cs)"

text \<open>
  The order of the suggestions: a higher score comes first, and of two equal scores the
  one at the earlier position in the candidate list.
\<close>

definition ranks_before :: "ustr \<times> real \<times> nat \<Rightarrow> ustr \<times> real \<times> nat \<Rightarrow> bool" where
  "ranks_before = (\<lambda>(c, s, i) (c', s', i'). s' < s \<or> (s' = s \<and> i < i'))"

text \<open>The dictionary \<^verbatim>\<open>new_row\<close> that lines 140 to 151 build from the form.\<close>

definition new_row_of :: "ext \<Rightarrow> add_form \<Rightarrow> pydict" where
  "new_row_of E f =
     [(py ''Best Use'', Str (strip (new_best_use f))),
      (py ''Compost Time'', Str (strip (new_compost f))),
      (py ''Nutrient'', Str (strip (new_nutrient f))),
      (py ''Tips'', Str (strip (new_tips f)))] @
     (if strip (new_yield f) \<noteq> [] then
        (case py_float E (strip (new_yield f)) of
           Some v \<Rightarrow> [(py ''Yield_pct'', Flt v)]
         | None \<Rightarrow> [])
      else [])"

section \<open>The matcher selects the first maximum\<close>

lemma scan_Some:
  "\<exists>b' s' i'. extractOne_scan sc cs i (Some (b, bs, bi)) = Some (b', s', i') \<and>
     (\<forall>c\<in>set cs. sc c \<le> s') \<and> bs \<le> s' \<and>
     ((b', s', i') = (b, bs, bi) \<and> (\<forall>c\<in>set cs. sc c \<le> bs) \<or>
      (\<exists>k<length cs. b' = cs ! k \<and> s' = sc (cs ! k) \<and> i' = i + k \<and> bs < s' \<and>
          (\<forall>j<k. sc (cs ! j) < s')))"
proof (induction cs arbitrary: i b bs bi)
  case Nil
  show ?case by simp
next
  case (Cons c cs)
  show ?case
  proof (cases "bs < sc c")
    case True
    from Cons.IH [of "Suc i" c "sc c" i]
    obtain b' s' i' where
      r: "extractOne_scan sc cs (Suc i) (Some (c, sc c, i)) = Some (b', s', i')"
      and ub: "\<forall>x\<in>set cs. sc x \<le> s'" and ge: "sc c \<le> s'"
      and d: "(b', s', i') = (c, sc c, i) \<and> (\<forall>x\<in>set cs. sc x \<le> sc c) \<or>
        (\<exists>k<length cs. b' = cs ! k \<and> s' = sc (cs ! k) \<and> i' = Suc i + k \<and> sc c < s' \<and>
          (\<forall>j<k. sc (cs ! j) < s'))"
      by blast
    from d have "\<exists>k<length (c # cs). b' = (c # cs) ! k \<and> s' = sc ((c # cs) ! k) \<and> i' = i + k \<and>
        bs < s' \<and> (\<forall>j<k. sc ((c # cs) ! j) < s')"
    proof
      assume "(b', s', i') = (c, sc c, i) \<and> (\<forall>x\<in>set cs. sc x \<le> sc c)"
      with True show ?thesis by (intro exI [of _ 0]) simp
    next
      assume "\<exists>k<length cs. b' = cs ! k \<and> s' = sc (cs ! k) \<and> i' = Suc i + k \<and> sc c < s' \<and>
          (\<forall>j<k. sc (cs ! j) < s')"
      then obtain k where k: "k < length cs" "b' = cs ! k" "s' = sc (cs ! k)" "i' = Suc i + k"
        "sc c < s'" "\<forall>j<k. sc (cs ! j) < s'" by blast
      have "\<forall>j<Suc k. sc ((c # cs) ! j) < s'"
        using k(5,6) by (auto simp: nth_Cons split: nat.splits)
      with k True show ?thesis by (intro exI [of _ "Suc k"]) auto
    qed
    with r ub ge True show ?thesis by auto
  next
    case False
    from Cons.IH [of "Suc i" b bs bi]
    obtain b' s' i' where
      r: "extractOne_scan sc cs (Suc i) (Some (b, bs, bi)) = Some (b', s', i')"
      and ub: "\<forall>x\<in>set cs. sc x \<le> s'" and ge: "bs \<le> s'"
      and d: "(b', s', i') = (b, bs, bi) \<and> (\<forall>x\<in>set cs. sc x \<le> bs) \<or>
        (\<exists>k<length cs. b' = cs ! k \<and> s' = sc (cs ! k) \<and> i' = Suc i + k \<and> bs < s' \<and>
          (\<forall>j<k. sc (cs ! j) < s'))"
      by blast
    from d have "(b', s', i') = (b, bs, bi) \<and> (\<forall>x\<in>set (c # cs). sc x \<le> bs) \<or>
       (\<exists>k<length (c # cs). b' = (c # cs) ! k \<and> s' = sc ((c # cs) ! k) \<and> i' = i + k \<and>
        bs < s' \<and> (\<forall>j<k. sc ((c # cs) ! j) < s'))"
    proof
      assume "(b', s', i') = (b, bs, bi) \<and> (\<forall>x\<in>set cs. sc x \<le> bs)"
      with False show ?thesis by auto
    next
      assume "\<exists>k<length cs. b' = cs ! k \<and> s' = sc (cs ! k) \<and> i' = Suc i + k \<and> bs < s' \<and>
          (\<forall>j<k. sc (cs ! j) < s')"
      then obtain k where k: "k < length cs" "b' = cs ! k" "s' = sc (cs ! k)" "i' = Suc i + k"
        "bs < s'" "\<forall>j<k. sc (cs ! j) < s'" by blast
      have "\<forall>j<Suc k. sc ((c # cs) ! j) < s'"
        using k(5,6) False by (auto simp: nth_Cons split: nat.splits)
      with k show ?thesis by (intro disjI2 exI [of _ "Suc k"]) auto
    qed
    with r ub ge False show ?thesis by auto
  qed
qed

lemma extractOne_first_max:
  assumes "choices \<noteq> []"
  shows "\<exists>k<length choices.
     extractOne E q choices = Some (choices ! k, WRatio E q (choices ! k), k) \<and>
     (\<forall>c\<in>set choices. WRatio E q c \<le> WRatio E q (choices ! k)) \<and>
     (\<forall>j<k. WRatio E q (choices ! j) < WRatio E q (choices ! k))"
proof -
  from assms obtain c cs where cs: "choices = c # cs" by (cases choices) auto
  let ?sc = "WRatio E q"
  from scan_Some [of ?sc cs 1 c "?sc c" 0]
  obtain b' s' i' where
      r: "extractOne_scan ?sc cs 1 (Some (c, ?sc c, 0)) = Some (b', s', i')"
      and ub: "\<forall>x\<in>set cs. ?sc x \<le> s'" and ge: "?sc c \<le> s'"
      and d: "(b', s', i') = (c, ?sc c, 0) \<and> (\<forall>x\<in>set cs. ?sc x \<le> ?sc c) \<or>
        (\<exists>k<length cs. b' = cs ! k \<and> s' = ?sc (cs ! k) \<and> i' = 1 + k \<and> ?sc c < s' \<and>
          (\<forall>j<k. ?sc (cs ! j) < s'))"
    by blast
  have e: "extractOne E q choices = Some (b', s', i')"
    using r by (simp add: extractOne_def cs)
  from d show ?thesis
  proof
    assume "(b', s', i') = (c, ?sc c, 0) \<and> (\<forall>x\<in>set cs. ?sc x \<le> ?sc c)"
    with e cs show ?thesis by (intro exI [of _ 0]) auto
  next
    assume "\<exists>k<length cs. b' = cs ! k \<and> s' = ?sc (cs ! k) \<and> i' = 1 + k \<and> ?sc c < s' \<and>
          (\<forall>j<k. ?sc (cs ! j) < s')"
    then obtain k where k: "k < length cs" "b' = cs ! k" "s' = ?sc (cs ! k)" "i' = 1 + k"
        "?sc c < s'" "\<forall>j<k. ?sc (cs ! j) < s'" by blast
    have "\<forall>j<Suc k. ?sc ((c # cs) ! j) < s'"
      using k(5,6) by (auto simp: nth_Cons split: nat.splits)
    with k e cs ub ge show ?thesis by (intro exI [of _ "Suc k"]) auto
  qed
qed

lemma Max_scores:
  assumes "k < length choices" "\<forall>c\<in>set choices. f c \<le> f (choices ! k)"
  shows "Max (f ` set choices) = f (choices ! k)"
  using assms by (intro Max_eqI) auto

lemma sample_scores_max:
  "Max (WRatio sample_ext (py ''cow dung'') ` set sample_names) = 50"
  by (simp add: sample_ext_def sample_names_def py_def)

text \<open>
  C1. For a non-empty candidate list, \<open>find_best_match\<close> with cutoff 50 returns a candidate of
  maximum score together with that score when the maximum is at least 50 (a score of
  exactly 50 is accepted), and no match together with the maximum score when the maximum
  is below 50. The candidate returned is the earliest one of maximum score.
\<close>

theorem find_best_match_cutoff:
  assumes "choices \<noteq> []"
  shows "(50 \<le> Max (WRatio E q ` set choices) \<longrightarrow>
           (\<exists>k<length choices.
              find_best_match E q choices 50 = (Some (choices ! k), Max (WRatio E q ` set choices)) \<and>
              WRatio E q (choices ! k) = Max (WRatio E q ` set choices) \<and>
              (\<forall>j<k. WRatio E q (choices ! j) < Max (WRatio E q ` set choices)))) \<and>
         (Max (WRatio E q ` set choices) < 50 \<longrightarrow>
            find_best_match E q choices 50 = (None, Max (WRatio E q ` set choices)))"
proof -
  from extractOne_first_max [OF assms, of E q]
  obtain k where k: "k < length choices"
    "extractOne E q choices = Some (choices ! k, WRatio E q (choices ! k), k)"
    "\<forall>c\<in>set choices. WRatio E q c \<le> WRatio E q (choices ! k)"
    "\<forall>j<k. WRatio E q (choices ! j) < WRatio E q (choices ! k)" by blast
  have m: "Max (WRatio E q ` set choices) = WRatio E q (choices ! k)"
    using k(1,3) by (rule Max_scores)
  show ?thesis
    unfolding m using k by (auto simp: find_best_match_def)
qed


text \<open>
  On the sample catalog the maximum score is exactly 50, reached by the first candidate,
  which is returned.
\<close>

theorem find_best_match_cutoff_witness:
  "sample_names \<noteq> [] \<and>
   find_best_match sample_ext (py ''cow dung'') sample_names 50 = (Some (py ''Cow Manure''), 50)"
proof -
  have ne: "sample_names \<noteq> []"
    by (simp add: sample_names_def)
  from find_best_match_cutoff [OF ne, of sample_ext "py ''cow dung''"]
  obtain k where k: "k < length sample_names"
    "find_best_match sample_ext (py ''cow dung'') sample_names 50 = (Some (sample_names ! k), 50)"
    "\<forall>j<k. WRatio sample_ext (py ''cow dung'') (sample_names ! j) < 50"
    unfolding sample_scores_max by auto
  have "\<not> WRatio sample_ext (py ''cow dung'') (sample_names ! 0) < 50"
    by (simp add: sample_ext_def sample_names_def)
  with k(3) have "k = 0" by (cases k) auto
  with k(2) ne show ?thesis by (simp add: sample_names_def)
qed

section \<open>The row that is read\<close>

lemma filter_first:
  "filter P xs = y # ys \<Longrightarrow> \<exists>i<length xs. xs ! i = y \<and> P y \<and> (\<forall>j<i. \<not> P (xs ! j))"
proof (induction xs)
  case Nil
  then show ?case by simp
next
  case (Cons x xs)
  show ?case
  proof (cases "P x")
    case True
    with Cons.prems have "x = y" by simp
    with True show ?thesis by (intro exI [of _ 0]) simp
  next
    case False
    with Cons.prems have "filter P xs = y # ys" by simp
    from Cons.IH [OF this] obtain i where
      i: "i < length xs" "xs ! i = y" "P y" "\<forall>j<i. \<not> P (xs ! j)" by blast
    have "\<forall>j<Suc i. \<not> P ((x # xs) ! j)"
      using i(4) False by (auto simp: nth_Cons split: nat.splits)
    with i show ?thesis by (intro exI [of _ "Suc i"]) simp
  qed
qed

lemma waste_row_first:
  assumes "waste_row df m = Inr row"
  shows "\<exists>i<length (df_rows df). row = to_dict df (df_rows df ! i) \<and> fst (df_rows df ! i) = m \<and>
           (\<forall>j<i. fst (df_rows df ! j) \<noteq> m)"
proof -
  from assms obtain r rs where f: "filter (\<lambda>r. fst r = m) (df_rows df) = r # rs"
    and row: "row = to_dict df r"
    by (auto simp: waste_row_def split: list.splits)
  from filter_first [OF f] row show ?thesis by auto
qed

lemma waste_row_found:
  assumes "m \<in> set (waste_list df)"
  shows "\<exists>row. waste_row df m = Inr row \<and> map_of row (py ''Waste Type'') = Some (Str m)"
proof -
  from assms have "filter (\<lambda>r. fst r = m) (df_rows df) \<noteq> []"
    by (auto simp: waste_list_def filter_empty_conv)
  then obtain r rs where f: "filter (\<lambda>r. fst r = m) (df_rows df) = r # rs"
    by (cases "filter (\<lambda>r. fst r = m) (df_rows df)") auto
  then have "r \<in> set (filter (\<lambda>r. fst r = m) (df_rows df))" by simp
  then have "fst r = m" by simp
  with f show ?thesis by (simp add: waste_row_def to_dict_def)
qed

lemma recommend_Matched:
  assumes "recommend E df selected user_text qty = Inr (Matched m sc row est rep, calls)"
  shows "waste_row df m = Inr row \<and> est = est_compost E row qty \<and>
         rep = format_report E row (if qty > 0 then Some qty else None)
                 (case est of Some e \<Rightarrow> if fl_truthy e then Some e else None | None \<Rightarrow> None)"
  using assms
  by (auto simp: recommend_def Let_def split: prod.splits if_splits sum.splits)

lemma select_match_selected:
  "selected \<noteq> [] \<Longrightarrow> select_match E selected user_text names = ((Some selected, Some 100), [])"
  by (simp add: select_match_def)

lemma recommend_of_selection:
  assumes "selected \<noteq> []" "waste_row df selected = Inr row"
  shows "recommend E df selected user_text qty =
           Inr (Matched selected (Some 100) row (est_compost E row qty)
                  (format_report E row (if qty > 0 then Some qty else None)
                     (case est_compost E row qty of
                        Some e \<Rightarrow> if fl_truthy e then Some e else None
                      | None \<Rightarrow> None)), [])"
  using assms by (simp add: recommend_def select_match_selected Let_def)

lemma dup_waste_row:
  "waste_row dup_df (py ''Cow Manure'') =
     Inr [(py ''Waste Type'', Str (py ''Cow Manure'')), (py ''Best Use'', Str (py ''Compost''))]"
  by (simp add: waste_row_def dup_df_def to_dict_def py_def)

lemma dup_selected:
  "recommend sample_ext dup_df (py ''Cow Manure'') [] 0 =
     Inr (Matched (py ''Cow Manure'') (Some 100)
            [(py ''Waste Type'', Str (py ''Cow Manure'')), (py ''Best Use'', Str (py ''Compost''))]
            None
            (format_report sample_ext
               [(py ''Waste Type'', Str (py ''Cow Manure'')), (py ''Best Use'', Str (py ''Compost''))]
               None None), [])"
proof -
  have ne: "py ''Cow Manure'' \<noteq> []" by (simp add: py_def)
  have w: "waste_row dup_df (py ''Cow Manure'') =
      Inr [(py ''Waste Type'', Str (py ''Cow Manure'')), (py ''Best Use'', Str (py ''Compost''))]"
    by (simp add: waste_row_def dup_df_def to_dict_def py_def)
  show ?thesis
    by (simp add: recommend_of_selection [OF ne w] est_compost_def)
qed

text \<open>
  C10. Whenever the page shows a match, the row it displays, and from which the estimate
  and the report are computed, is the earliest row of the table that bears the matched
  name: every earlier row has another name, so a later duplicate is never used.
\<close>

theorem recommend_uses_first_row:
  assumes "recommend E df selected user_text qty = Inr (Matched m sc row est rep, calls)"
  shows "\<exists>i<length (df_rows df).
           row = to_dict df (df_rows df ! i) \<and> fst (df_rows df ! i) = m \<and>
           (\<forall>j<i. fst (df_rows df ! j) \<noteq> m) \<and>
           est = est_compost E row qty \<and>
           rep = format_report E row (if qty > 0 then Some qty else None)
                   (case est of Some e \<Rightarrow> if fl_truthy e then Some e else None | None \<Rightarrow> None)"
proof -
  from recommend_Matched [OF assms] have w: "waste_row df m = Inr row"
    and e: "est = est_compost E row qty"
    and r: "rep = format_report E row (if qty > 0 then Some qty else None)
                   (case est of Some e \<Rightarrow> if fl_truthy e then Some e else None | None \<Rightarrow> None)"
    by auto
  from waste_row_first [OF w] e r show ?thesis by blast
qed

text \<open>
  In the sample catalog the name Cow Manure stands in the second and the third row; the
  row read is the second one, with best use Compost.
\<close>

theorem recommend_uses_first_row_witness:
  "recommend sample_ext dup_df (py ''Cow Manure'') [] 0 =
     Inr (Matched (py ''Cow Manure'') (Some 100)
            [(py ''Waste Type'', Str (py ''Cow Manure'')), (py ''Best Use'', Str (py ''Compost''))]
            None
            (format_report sample_ext
               [(py ''Waste Type'', Str (py ''Cow Manure'')), (py ''Best Use'', Str (py ''Compost''))]
               None None), []) \<and>
   (\<exists>i<length (df_rows dup_df).
      [(py ''Waste Type'', Str (py ''Cow Manure'')), (py ''Best Use'', Str (py ''Compost''))] =
        to_dict dup_df (df_rows dup_df ! i) \<and>
      fst (df_rows dup_df ! i) = py ''Cow Manure'' \<and>
      (\<forall>j<i. fst (df_rows dup_df ! j) \<noteq> py ''Cow Manure''))"
  using recommend_uses_first_row [OF dup_selected] dup_selected by blast

section \<open>An explicit selection\<close>

text \<open>
  C3. For a non-empty selection that is one of the catalog names offered by the select box,
  and for every free text, the page shows the row named by the selection with score 100.
  The matcher is not called: the list of matcher calls is empty and the result is the same
  for every scorer.
\<close>

theorem recommend_selected_wins:
  assumes "selected \<noteq> []" "selected \<in> set (waste_list df)"
  shows "\<exists>row. waste_row df selected = Inr row \<and>
           map_of row (py ''Waste Type'') = Some (Str selected) \<and>
           (\<forall>w. recommend (E\<lparr>WRatio := w\<rparr>) df selected user_text qty =
                 Inr (Matched selected (Some 100) row (est_compost E row qty)
                      (format_report E row (if qty > 0 then Some qty else None)
                         (case est_compost E row qty of
                            Some e \<Rightarrow> if fl_truthy e then Some e else None
                          | None \<Rightarrow> None)), []))"
proof -
  from waste_row_found [OF assms(2)] obtain row where
    w: "waste_row df selected = Inr row" and n: "map_of row (py ''Waste Type'') = Some (Str selected)"
    by blast
  have y: "yield_pct (E\<lparr>WRatio := w\<rparr>) yp = yield_pct E yp" for w yp
    by (simp add: yield_pct_def split: option.splits cell.splits)
  have e: "est_compost (E\<lparr>WRatio := w\<rparr>) row qty = est_compost E row qty" for w
    by (simp add: est_compost_def y)
  have g: "get_str (E\<lparr>WRatio := w\<rparr>) d k = get_str E d k" for w d k
  proof -
    have "str_cell (E\<lparr>WRatio := w\<rparr>) v = str_cell E v" for v by (cases v) simp_all
    then show ?thesis by (simp add: get_str_def split: option.splits)
  qed
  have l: "report_lines (E\<lparr>WRatio := w\<rparr>) row a b = report_lines E row a b" for w a b
    by (simp add: report_lines_def g split: option.splits)
  have f: "format_report (E\<lparr>WRatio := w\<rparr>) row a b = format_report E row a b" for w a b
    by (simp add: format_report_def l)
  from w n show ?thesis
    by (intro exI [of _ row]) (simp add: recommend_of_selection [OF assms(1) w] e f)
qed

text \<open>Selecting Cow Manure while the free text says banana peels.\<close>

theorem recommend_selected_wins_witness:
  "py ''Cow Manure'' \<noteq> [] \<and> py ''Cow Manure'' \<in> set (waste_list dup_df) \<and>
   recommend sample_ext dup_df (py ''Cow Manure'') (py ''banana peels'') 0 =
     Inr (Matched (py ''Cow Manure'') (Some 100)
            [(py ''Waste Type'', Str (py ''Cow Manure'')), (py ''Best Use'', Str (py ''Compost''))]
            None
            (format_report sample_ext
               [(py ''Waste Type'', Str (py ''Cow Manure'')), (py ''Best Use'', Str (py ''Compost''))]
               None None), [])"
proof -
  have ne: "py ''Cow Manure'' \<noteq> []" by (simp add: py_def)
  have m: "py ''Cow Manure'' \<in> set (waste_list dup_df)"
    by (simp add: waste_list_def dup_df_def)
  from recommend_selected_wins [OF ne m, of sample_ext "py ''banana peels''" 0]
  obtain row where w: "waste_row dup_df (py ''Cow Manure'') = Inr row"
    and r: "\<forall>w. recommend (sample_ext\<lparr>WRatio := w\<rparr>) dup_df (py ''Cow Manure'') (py ''banana peels'') 0 =
       Inr (Matched (py ''Cow Manure'') (Some 100) row (est_compost sample_ext row 0)
              (format_report sample_ext row (if (0::real) > 0 then Some 0 else None)
                 (case est_compost sample_ext row 0 of
                    Some e \<Rightarrow> if fl_truthy e then Some e else None
                  | None \<Rightarrow> None)), [])"
    by blast
  from w have row: "row = [(py ''Waste Type'', Str (py ''Cow Manure'')), (py ''Best Use'', Str (py ''Compost''))]"
    by (simp add: dup_waste_row)
  from r have "recommend (sample_ext\<lparr>WRatio := WRatio sample_ext\<rparr>) dup_df (py ''Cow Manure'') (py ''banana peels'') 0 =
       Inr (Matched (py ''Cow Manure'') (Some 100) row (est_compost sample_ext row 0)
              (format_report sample_ext row (if (0::real) > 0 then Some 0 else None)
                 (case est_compost sample_ext row 0 of
                    Some e \<Rightarrow> if fl_truthy e then Some e else None
                  | None \<Rightarrow> None)), [])"
    by (rule spec)
  with ne m row show ?thesis by (simp add: est_compost_def)
qed

section \<open>Empty input\<close>

text \<open>
  C9. When nothing is selected and the free text is empty after trimming, the outcome is the
  empty-input prompt and the matcher is not called.
\<close>

theorem recommend_empty_input:
  assumes "selected = []" "strip user_text = []"
  shows "recommend E df selected user_text qty = Inr (EmptyInput, [])"
  using assms by (simp add: recommend_def select_match_def)

text \<open>The free text of three spaces.\<close>

theorem recommend_empty_input_witness:
  "([]::ustr) = [] \<and> strip (py ''   '') = [] \<and>
   recommend sample_ext dup_df [] (py ''   '') 0 = Inr (EmptyInput, [])"
proof -
  have s: "strip (py ''   '') = []"
    by (simp add: strip_def py_def isspace_def)
  from recommend_empty_input [OF refl s] s show ?thesis by simp
qed

section \<open>The yield estimate\<close>

text \<open>
  The doubles that line 89 computes for some quantities and percentages: 40, 30, -5 and 45
  per cent of 100 are exact, 10 per cent of 3 is 0.30000000000000004.
\<close>

lemma doubles_at_100:
  "fl_mul 100 (fl_div_100 (Fin 40)) = Fin 40"
  "fl_mul 100 (fl_div_100 (Fin 30)) = Fin 30"
  "fl_mul 100 (fl_div_100 (Fin (- 5))) = Fin (- 5)"
  "fl_mul 100 (fl_div_100 (Fin 45)) = Fin 45"
  by (simp_all add: round_double_def round_half_even_def)

lemma doubles_at_3:
  "fl_div_100 (Fin 10) = Fin (3602879701896397 / 36028797018963968)"
  "fl_mul 3 (fl_div_100 (Fin 10)) = Fin (1351079888211149 / 4503599627370496)"
  by (simp_all add: round_double_def round_half_even_def)

lemma husk_row_yield:
  "map_of husk_row (py ''Yield_pct'') = None"
  "map_of (husk_row @ [(py ''Yield_pct'', v)]) (py ''Yield_pct'') = Some v"
  by (simp_all add: husk_row_def py_def)

text \<open>
  C4, as the code has it. For a positive quantity and a row whose \<^verbatim>\<open>Yield_pct\<close> is not the
  not-a-number of a blank cell, the yield percentage is the row's \<^verbatim>\<open>Yield_pct\<close> whenever the
  row has one that is a float or a text that parses as a float, whatever its sign (line 86
  converts with \<^verbatim>\<open>float\<close> and checks nothing else), and the default 40 when the row has no
  such entry or its text does not parse. The estimate is the double
  \<^verbatim>\<open>qty * (yield_pct / 100.0)\<close>: the quotient is rounded to a double and so is the product.
  A quantity of 100 with no yield entry gives exactly 40.
\<close>

theorem est_compost_yield:
  assumes "0 < qty"
  shows "(map_of row (py ''Yield_pct'') = None \<longrightarrow>
            est_compost E row qty = Some (fl_mul qty (fl_div_100 (Fin 40)))) \<and>
         (\<forall>y. map_of row (py ''Yield_pct'') = Some (Flt y) \<and> y \<noteq> NaN \<longrightarrow>
            est_compost E row qty = Some (fl_mul qty (fl_div_100 y))) \<and>
         (\<forall>s. map_of row (py ''Yield_pct'') = Some (Str s) \<and> py_float E s = None \<longrightarrow>
            est_compost E row qty = Some (fl_mul qty (fl_div_100 (Fin 40)))) \<and>
         (\<forall>s y. map_of row (py ''Yield_pct'') = Some (Str s) \<and> py_float E s = Some y \<and> y \<noteq> NaN \<longrightarrow>
            est_compost E row qty = Some (fl_mul qty (fl_div_100 y))) \<and>
         (\<forall>x r. round_double (x / 100) = Fin r \<longrightarrow>
            fl_mul qty (fl_div_100 (Fin x)) = round_double (qty * r)) \<and>
         (map_of row (py ''Yield_pct'') = None \<longrightarrow> est_compost E row 100 = Some (Fin 40))"
proof -
  have e: "est_compost E row q =
      Some (fl_mul q (fl_div_100 (yield_pct E (map_of row (py ''Yield_pct'')))))" if "0 < q" for q
    using that by (simp add: est_compost_def)
  have 1: "map_of row (py ''Yield_pct'') = None \<longrightarrow>
            est_compost E row qty = Some (fl_mul qty (fl_div_100 (Fin 40)))"
    by (simp add: e [OF assms] yield_pct_def)
  have 2: "\<forall>y. map_of row (py ''Yield_pct'') = Some (Flt y) \<and> y \<noteq> NaN \<longrightarrow>
            est_compost E row qty = Some (fl_mul qty (fl_div_100 y))"
    by (simp add: e [OF assms] yield_pct_def)
  have 3: "\<forall>s. map_of row (py ''Yield_pct'') = Some (Str s) \<and> py_float E s = None \<longrightarrow>
            est_compost E row qty = Some (fl_mul qty (fl_div_100 (Fin 40)))"
    by (simp add: e [OF assms] yield_pct_def)
  have 4: "\<forall>s y. map_of row (py ''Yield_pct'') = Some (Str s) \<and> py_float E s = Some y \<and> y \<noteq> NaN \<longrightarrow>
            est_compost E row qty = Some (fl_mul qty (fl_div_100 y))"
    by (simp add: e [OF assms] yield_pct_def)
  have 5: "\<forall>x r. round_double (x / 100) = Fin r \<longrightarrow>
            fl_mul qty (fl_div_100 (Fin x)) = round_double (qty * r)"
    by simp
  have 6: "map_of row (py ''Yield_pct'') = None \<longrightarrow> est_compost E row 100 = Some (Fin 40)"
    by (simp add: e [of 100] yield_pct_def doubles_at_100 del: fl_div_100.simps fl_mul.simps)
  from 1 2 3 4 5 6 show ?thesis by blast
qed

text \<open>
  A quantity of 100 on a row without yield entry, with the numbers 30 and -5, with a text
  that does not parse and with the text 45; and the two roundings for 10 per cent of 3.
\<close>

theorem est_compost_yield_witness:
  "(0::real) < 100 \<and>
   est_compost sample_ext husk_row 100 = Some (Fin 40) \<and>
   est_compost sample_ext (husk_row @ [(py ''Yield_pct'', Flt (Fin 30))]) 100 = Some (Fin 30) \<and>
   est_compost sample_ext (husk_row @ [(py ''Yield_pct'', Flt (Fin (- 5)))]) 100 = Some (Fin (- 5)) \<and>
   est_compost sample_ext (husk_row @ [(py ''Yield_pct'', Str (py ''abc''))]) 100 = Some (Fin 40) \<and>
   est_compost sample_ext (husk_row @ [(py ''Yield_pct'', Str (py ''45''))]) 100 = Some (Fin 45) \<and>
   round_double (10 / 100) = Fin (3602879701896397 / 36028797018963968) \<and>
   fl_mul 3 (fl_div_100 (Fin 10)) = round_double (3 * (3602879701896397 / 36028797018963968))"
proof -
  have q: "(0::real) < 100" by simp
  have q3: "(0::real) < 3" by simp
  have p1: "py_float sample_ext (py ''abc'') = None"
    by (simp add: sample_ext_def py_def)
  have p2: "py_float sample_ext (py ''45'') = Some (Fin 45)"
    by (simp add: sample_ext_def py_def)
  from est_compost_yield [OF q, of husk_row sample_ext] husk_row_yield(1)
  have a: "est_compost sample_ext husk_row 100 = Some (Fin 40)"
    by blast
  from est_compost_yield [OF q, of "husk_row @ [(py ''Yield_pct'', Flt (Fin 30))]" sample_ext]
    husk_row_yield(2) [of "Flt (Fin 30)"]
  have "est_compost sample_ext (husk_row @ [(py ''Yield_pct'', Flt (Fin 30))]) 100 =
      Some (fl_mul 100 (fl_div_100 (Fin 30)))"
    by blast
  then have b: "est_compost sample_ext (husk_row @ [(py ''Yield_pct'', Flt (Fin 30))]) 100 = Some (Fin 30)"
    by (simp only: doubles_at_100)
  from est_compost_yield [OF q, of "husk_row @ [(py ''Yield_pct'', Flt (Fin (- 5)))]" sample_ext]
    husk_row_yield(2) [of "Flt (Fin (- 5))"]
  have "est_compost sample_ext (husk_row @ [(py ''Yield_pct'', Flt (Fin (- 5)))]) 100 =
      Some (fl_mul 100 (fl_div_100 (Fin (- 5))))"
    by blast
  then have c: "est_compost sample_ext (husk_row @ [(py ''Yield_pct'', Flt (Fin (- 5)))]) 100 = Some (Fin (- 5))"
    by (simp only: doubles_at_100)
  from est_compost_yield [OF q, of "husk_row @ [(py ''Yield_pct'', Str (py ''abc''))]" sample_ext]
    husk_row_yield(2) [of "Str (py ''abc'')"] p1
  have "est_compost sample_ext (husk_row @ [(py ''Yield_pct'', Str (py ''abc''))]) 100 =
      Some (fl_mul 100 (fl_div_100 (Fin 40)))"
    by blast
  then have d: "est_compost sample_ext (husk_row @ [(py ''Yield_pct'', Str (py ''abc''))]) 100 = Some (Fin 40)"
    by (simp only: doubles_at_100)
  have "Fin 45 \<noteq> NaN" by simp
  with est_compost_yield [OF q, of "husk_row @ [(py ''Yield_pct'', Str (py ''45''))]" sample_ext]
    husk_row_yield(2) [of "Str (py ''45'')"] p2
  have "est_compost sample_ext (husk_row @ [(py ''Yield_pct'', Str (py ''45''))]) 100 =
      Some (fl_mul 100 (fl_div_100 (Fin 45)))"
    by blast
  then have e: "est_compost sample_ext (husk_row @ [(py ''Yield_pct'', Str (py ''45''))]) 100 = Some (Fin 45)"
    by (simp only: doubles_at_100)
  have f: "round_double (10 / 100) = Fin (3602879701896397 / 36028797018963968)"
    using doubles_at_3(1) by simp
  from est_compost_yield [OF q3, of husk_row sample_ext] f
  have g: "fl_mul 3 (fl_div_100 (Fin 10)) = round_double (3 * (3602879701896397 / 36028797018963968))"
    by blast
  from q a b c d e f g show ?thesis by blast
qed

text \<open>
  Three inputs on which the code departs from the spec's rule. A yield entry of -5 is a
  number but not positive: the code uses it, and the estimate for 100 kg is -5, where the
  rule falls back to 40. A blank yield cell is not-a-number: the code carries it through to
  the estimate, where the rule falls back to 40. And 3 kg at 10 per cent give the double
  0.30000000000000004, not 3 times 10 over 100.
\<close>

theorem est_compost_yield_counterexample:
  "\<not> (0::real) < - 5 \<and>
   est_compost sample_ext (husk_row @ [(py ''Yield_pct'', Flt (Fin (- 5)))]) 100 = Some (Fin (- 5)) \<and>
   yield_pct_spec sample_ext (Some (Flt (Fin (- 5)))) = Fin 40 \<and>
   est_compost sample_ext (husk_row @ [(py ''Yield_pct'', Flt NaN)]) 100 = Some NaN \<and>
   yield_pct_spec sample_ext (Some (Flt NaN)) = Fin 40 \<and>
   est_compost sample_ext (husk_row @ [(py ''Yield_pct'', Flt (Fin 10))]) 3 =
     Some (Fin (1351079888211149 / 4503599627370496)) \<and>
   (1351079888211149 / 4503599627370496 :: real) \<noteq> 3 * 10 / 100"
proof -
  have y: "yield_pct sample_ext (map_of (husk_row @ [(py ''Yield_pct'', Flt v)]) (py ''Yield_pct'')) = v"
    for v
    by (simp only: husk_row_yield) (simp add: yield_pct_def)
  have a: "est_compost sample_ext (husk_row @ [(py ''Yield_pct'', Flt (Fin (- 5)))]) 100 = Some (Fin (- 5))"
    by (simp add: est_compost_def y doubles_at_100 del: fl_div_100.simps fl_mul.simps map_of_append)
  have b: "est_compost sample_ext (husk_row @ [(py ''Yield_pct'', Flt NaN)]) 100 = Some NaN"
    by (simp add: est_compost_def y del: map_of_append)
  have c: "est_compost sample_ext (husk_row @ [(py ''Yield_pct'', Flt (Fin 10))]) 3 =
     Some (Fin (1351079888211149 / 4503599627370496))"
    by (simp add: est_compost_def y doubles_at_3(2) del: fl_div_100.simps fl_mul.simps map_of_append)
  have d: "yield_pct_spec sample_ext (Some (Flt (Fin (- 5)))) = Fin 40"
    "yield_pct_spec sample_ext (Some (Flt NaN)) = Fin 40"
    by (simp_all add: yield_pct_spec_def)
  have e: "(1351079888211149 / 4503599627370496 :: real) \<noteq> 3 * 10 / 100" by simp
  from a b c d e show ?thesis by simp
qed

section \<open>The text report\<close>

text \<open>
  C5, evaluated on the code. The lines of the report are joined with the two characters
  backslash and n of the literal \<^verbatim>\<open>"\\n"\<close> in line 108: the report of a matched row holds no
  newline character and differs from the newline-joined block of the spec.
\<close>

theorem format_report_literal_backslash_n:
  "format_report sample_ext husk_row None None =
     py ''Farm Waste '' @ [8594] @ py '' Fertilizer Advisor Report'' @ [92, 110] @
     py ''Generated: 2024-01-01 12:00:00'' @ [92, 110] @ [92, 110] @
     py ''Waste Type: Rice Husk'' @ [92, 110] @
     py ''Best Use: Mulching'' @ [92, 110] @
     py ''Compost Time: '' @ [92, 110] @
     py ''Nutrient: '' @ [92, 110] @
     py ''Tips: '' \<and>
   10 \<notin> set (format_report sample_ext husk_row None None) \<and>
   format_report sample_ext husk_row None None \<noteq> format_report_spec sample_ext husk_row None None"
  by (simp add: format_report_def format_report_spec_def report_lines_def get_str_def husk_row_def
      sample_ext_def py_def)

section \<open>The suggestions\<close>

lemma insort_ranks:
  assumes "sorted_wrt ranks_before ys" "\<forall>y\<in>set ys. snd (snd x) < snd (snd y)"
  shows "sorted_wrt ranks_before (insort_key (\<lambda>(c, s, i). - s) x ys)"
  using assms
proof (induction ys)
  case Nil
  then show ?case by simp
next
  case (Cons y ys)
  then show ?case
    by (cases x; cases y) (auto simp: ranks_before_def set_insort_key)
qed

lemma sort_ranks:
  assumes "sorted_wrt (\<lambda>a b. snd (snd a) < snd (snd b)) xs"
  shows "sorted_wrt ranks_before (sort_key (\<lambda>(c, s, i). - s) xs)"
  using assms
proof (induction xs)
  case Nil
  then show ?case by simp
next
  case (Cons x xs)
  then show ?case by (simp add: insort_ranks)
qed

lemma enumerate_increasing:
  "sorted_wrt (\<lambda>a b. snd (snd a) < snd (snd b)) (map (\<lambda>(i, c). (c, f c, i)) (enumerate n cs))"
proof (induction cs arbitrary: n)
  case Nil
  show ?case by simp
next
  case (Cons c cs)
  have "\<forall>p\<in>set (enumerate (Suc n) cs). n < fst p"
    by (auto simp: in_set_enumerate_eq)
  with Cons [of "Suc n"] show ?case by (auto simp: case_prod_beta)
qed

lemma scored_entries:
  "(c, s, i) \<in> set (scored E q cs) \<longleftrightarrow> i < length cs \<and> c = cs ! i \<and> s = WRatio E q c"
  by (auto simp: scored_def in_set_enumerate_eq)

lemma sorted_wrt_take_drop:
  assumes "sorted_wrt R xs"
  shows "sorted_wrt R (take n xs) \<and> (\<forall>x\<in>set (take n xs). \<forall>y\<in>set (drop n xs). R x y)"
proof -
  from assms have "sorted_wrt R (take n xs @ drop n xs)" by simp
  then show ?thesis unfolding sorted_wrt_append by blast
qed

lemma process_extract_alt:
  "process_extract E q cs limit = take limit (sort_key (\<lambda>(c, s, i). - s) (scored E q cs))"
  by (simp add: process_extract_def scored_def)

lemma process_extract_props:
  "length (process_extract E q cs limit) = min limit (length cs) \<and>
   sorted_wrt ranks_before (process_extract E q cs limit) \<and>
   (\<forall>(c, s, i)\<in>set (process_extract E q cs limit). i < length cs \<and> c = cs ! i \<and> s = WRatio E q c) \<and>
   (\<forall>j<length cs. (cs ! j, WRatio E q (cs ! j), j) \<in> set (process_extract E q cs limit) \<or>
      (\<forall>(c, s, i)\<in>set (process_extract E q cs limit). WRatio E q (cs ! j) \<le> s))"
proof -
  let ?s = "sort_key (\<lambda>(c, s, i). - s) (scored E q cs)"
  have len: "length (process_extract E q cs limit) = min limit (length cs)"
    by (simp add: process_extract_alt scored_def min.commute)
  have srt: "sorted_wrt ranks_before ?s"
    unfolding scored_def by (rule sort_ranks [OF enumerate_increasing])
  from sorted_wrt_take_drop [OF srt, of limit]
  have st: "sorted_wrt ranks_before (take limit ?s)"
    and td: "\<forall>x\<in>set (take limit ?s). \<forall>y\<in>set (drop limit ?s). ranks_before x y"
    by blast+
  have ent: "\<forall>(c, s, i)\<in>set (process_extract E q cs limit).
      i < length cs \<and> c = cs ! i \<and> s = WRatio E q c"
  proof -
    have "set (take limit ?s) \<subseteq> set (scored E q cs)"
      using set_take_subset [of limit ?s] by simp
    then show ?thesis
      unfolding process_extract_alt using scored_entries by blast
  qed
  have top: "\<forall>j<length cs. (cs ! j, WRatio E q (cs ! j), j) \<in> set (process_extract E q cs limit) \<or>
      (\<forall>(c, s, i)\<in>set (process_extract E q cs limit). WRatio E q (cs ! j) \<le> s)"
  proof (intro allI impI)
    fix j assume j: "j < length cs"
    let ?t = "(cs ! j, WRatio E q (cs ! j), j)"
    from j have "?t \<in> set (scored E q cs)" by (simp add: scored_entries)
    then have "?t \<in> set (take limit ?s @ drop limit ?s)" by simp
    then have "?t \<in> set (take limit ?s) \<or> ?t \<in> set (drop limit ?s)"
      unfolding set_append by blast
    then show "?t \<in> set (process_extract E q cs limit) \<or>
      (\<forall>(c, s, i)\<in>set (process_extract E q cs limit). WRatio E q (cs ! j) \<le> s)"
    proof
      assume "?t \<in> set (take limit ?s)"
      then show ?thesis by (simp add: process_extract_alt)
    next
      assume d: "?t \<in> set (drop limit ?s)"
      have "\<forall>(c, s, i)\<in>set (take limit ?s). WRatio E q (cs ! j) \<le> s"
      proof (clarify)
        fix c s i assume "(c, s, i) \<in> set (take limit ?s)"
        with td d have "ranks_before (c, s, i) ?t" by blast
        then show "WRatio E q (cs ! j) \<le> s" by (auto simp: ranks_before_def)
      qed
      then show ?thesis by (simp add: process_extract_alt)
    qed
  qed
  from len st ent top show ?thesis by (simp add: process_extract_alt)
qed

lemma seven_top5:
  "process_extract sample_ext (py ''xyzxyz'') seven_names 5 =
     [(py ''Banana Peels'', 45, 1), (py ''Rice Husk'', 20, 2), (py ''Straw'', 20, 3),
      (py ''Leaves'', 20, 4), (py ''Sawdust'', 20, 5)]"
  by (simp add: process_extract_def seven_names_def sample_ext_def py_def enumerate_simps)

text \<open>
  C6. With limit 5 the suggestion list has at most 5 entries, exactly 5 when there are at
  least 5 candidates and all of them otherwise, whatever the scores are: no cutoff applies.
  The entries are candidates with their scores and positions, in non-increasing order of
  score with equal scores in the order of their positions, and every candidate left out
  scores no more than every entry kept.
\<close>

theorem process_extract_top5:
  "length (process_extract E q cs 5) \<le> 5 \<and>
   length (process_extract E q cs 5) = min 5 (length cs) \<and>
   sorted_wrt (\<lambda>(c, s, i) (c', s', i'). s' < s \<or> (s' = s \<and> i < i')) (process_extract E q cs 5) \<and>
   (\<forall>(c, s, i)\<in>set (process_extract E q cs 5). i < length cs \<and> c = cs ! i \<and> s = WRatio E q c) \<and>
   (\<forall>j<length cs. (cs ! j, WRatio E q (cs ! j), j) \<in> set (process_extract E q cs 5) \<or>
      (\<forall>(c, s, i)\<in>set (process_extract E q cs 5). WRatio E q (cs ! j) \<le> s))"
  using process_extract_props [of E q cs 5] unfolding ranks_before_def by simp

text \<open>
  Seven candidates scored 10, 45, 20, 20, 20, 20, 20, all below 50: the five suggestions
  are the one scored 45 and the first four of those scored 20.
\<close>

theorem process_extract_top5_witness:
  "process_extract sample_ext (py ''xyzxyz'') seven_names 5 =
     [(py ''Banana Peels'', 45, 1), (py ''Rice Husk'', 20, 2), (py ''Straw'', 20, 3),
      (py ''Leaves'', 20, 4), (py ''Sawdust'', 20, 5)] \<and>
   length (process_extract sample_ext (py ''xyzxyz'') seven_names 5) = min 5 (length seven_names) \<and>
   sorted_wrt (\<lambda>(c, s, i) (c', s', i'). s' < s \<or> (s' = s \<and> i < i'))
     [(py ''Banana Peels'', 45, 1), (py ''Rice Husk'', 20, 2), (py ''Straw'', 20, 3),
      (py ''Leaves'', 20, 4), (py ''Sawdust'', 20::real, 5::nat)]"
  using process_extract_top5 [of sample_ext "py ''xyzxyz''" seven_names] seven_top5
  by simp

section \<open>The add button\<close>

lemma waste_list_df_append:
  "waste_list (df_append df n items) = waste_list df @ [n]"
  by (simp add: df_append_def waste_list_def Let_def case_prod_beta comp_def)

lemma last_df_append:
  "to_dict (df_append df n items) (last (df_rows (df_append df n items))) =
     (py ''Waste Type'', Str n) #
     zip (df_columns (df_append df n items))
       (map (\<lambda>k. case map_of items k of Some v \<Rightarrow> v | None \<Rightarrow> Flt NaN)
          (df_columns (df_append df n items)))"
  by (simp add: df_append_def to_dict_def Let_def)

lemma new_record_name:
  "map_of (to_dict (df_append df n items) (last (df_rows (df_append df n items))))
     (py ''Waste Type'') = Some (Str n)"
  by (simp add: last_df_append)

lemma new_record_field:
  assumes "k \<noteq> py ''Waste Type''" "map_of items k = Some v"
  shows "map_of (to_dict (df_append df n items) (last (df_rows (df_append df n items)))) k = Some v"
proof -
  from assms(2) have "k \<in> fst ` set items" by (rule map_of_SomeD [THEN imageI [of _ _ fst], simplified])
  with assms(1) have "k \<in> set (df_columns (df_append df n items))"
    by (auto simp: df_append_def Let_def)
  with assms show ?thesis
    by (simp add: last_df_append map_of_zip_map)
qed

lemma keys_distinct:
  "py ''Best Use'' \<noteq> py ''Waste Type''" "py ''Compost Time'' \<noteq> py ''Waste Type''"
  "py ''Nutrient'' \<noteq> py ''Waste Type''" "py ''Tips'' \<noteq> py ''Waste Type''"
  "py ''Yield_pct'' \<noteq> py ''Waste Type''"
  "py ''Compost Time'' \<noteq> py ''Best Use''" "py ''Nutrient'' \<noteq> py ''Best Use''"
  "py ''Tips'' \<noteq> py ''Best Use''" "py ''Yield_pct'' \<noteq> py ''Best Use''"
  "py ''Nutrient'' \<noteq> py ''Compost Time''" "py ''Tips'' \<noteq> py ''Compost Time''"
  "py ''Yield_pct'' \<noteq> py ''Compost Time''"
  "py ''Tips'' \<noteq> py ''Nutrient''" "py ''Yield_pct'' \<noteq> py ''Nutrient''"
  "py ''Yield_pct'' \<noteq> py ''Tips''"
  by (simp_all add: py_def)

lemma new_row_of_fields:
  "map_of (new_row_of E f) (py ''Best Use'') = Some (Str (strip (new_best_use f)))"
  "map_of (new_row_of E f) (py ''Compost Time'') = Some (Str (strip (new_compost f)))"
  "map_of (new_row_of E f) (py ''Nutrient'') = Some (Str (strip (new_nutrient f)))"
  "map_of (new_row_of E f) (py ''Tips'') = Some (Str (strip (new_tips f)))"
  by (simp_all add: new_row_of_def keys_distinct)

lemma new_row_of_yield:
  "strip (new_yield f) \<noteq> [] \<Longrightarrow> py_float E (strip (new_yield f)) = Some v \<Longrightarrow>
     map_of (new_row_of E f) (py ''Yield_pct'') = Some (Flt v)"
  by (simp add: new_row_of_def keys_distinct)

lemma add_new_waste_rejects:
  "strip (new_waste f) = [] \<Longrightarrow>
     add_new_waste E f s = (St_error (py ''Enter a waste type name.''), s)"
  by (simp add: add_new_waste_def)

lemma add_new_waste_accepts:
  "strip (new_waste f) \<noteq> [] \<Longrightarrow>
     add_new_waste E f s =
       (St_success
          (py ''Added '' @ [39] @ strip (new_waste f) @ [39] @
           py '' to dataset and saved to waste_data.csv. Refresh page to see changes.''),
        s\<lparr>session_df := df_append (session_df s) (strip (new_waste f)) (new_row_of E f),
          csv_file := Some (df_append (session_df s) (strip (new_waste f)) (new_row_of E f))\<rparr>)"
  by (simp add: add_new_waste_def new_row_of_def Let_def)

lemma strip_samples:
  "strip (py ''  '') = []" "strip (py '' Rice Husk '') = py ''Rice Husk''"
  "strip (py ''45'') = py ''45''"
  by (simp_all add: strip_def py_def isspace_def)

text \<open>
  C8. The handler of the add button checks that the name is non-empty after trimming. When
  it is empty the handler answers with the message asking for a name and leaves the state
  as it was, the table of the session and the stored file alike. When it is not, the handler
  succeeds: the new table is the old one with one more row at the end, named by the trimmed
  name and holding the trimmed fields of the form (and the yield when one was entered and
  parses), and the stored file holds that new table.
\<close>

theorem add_new_waste_validates:
  "(strip (new_waste f) = [] \<longrightarrow>
      add_new_waste E f s = (St_error (py ''Enter a waste type name.''), s)) \<and>
   (strip (new_waste f) \<noteq> [] \<longrightarrow>
      (\<exists>msg df'.
         add_new_waste E f s = (St_success msg, s\<lparr>session_df := df', csv_file := Some df'\<rparr>) \<and>
         waste_list df' = waste_list (session_df s) @ [strip (new_waste f)] \<and>
         map_of (to_dict df' (last (df_rows df'))) (py ''Waste Type'') =
           Some (Str (strip (new_waste f))) \<and>
         map_of (to_dict df' (last (df_rows df'))) (py ''Best Use'') =
           Some (Str (strip (new_best_use f))) \<and>
         map_of (to_dict df' (last (df_rows df'))) (py ''Compost Time'') =
           Some (Str (strip (new_compost f))) \<and>
         map_of (to_dict df' (last (df_rows df'))) (py ''Nutrient'') =
           Some (Str (strip (new_nutrient f))) \<and>
         map_of (to_dict df' (last (df_rows df'))) (py ''Tips'') =
           Some (Str (strip (new_tips f))) \<and>
         (\<forall>v. strip (new_yield f) \<noteq> [] \<and> py_float E (strip (new_yield f)) = Some v \<longrightarrow>
            map_of (to_dict df' (last (df_rows df'))) (py ''Yield_pct'') = Some (Flt v))))"
proof (intro conjI impI)
  assume "strip (new_waste f) = []"
  then show "add_new_waste E f s = (St_error (py ''Enter a waste type name.''), s)"
    by (rule add_new_waste_rejects)
next
  assume ne: "strip (new_waste f) \<noteq> []"
  let ?df = "df_append (session_df s) (strip (new_waste f)) (new_row_of E f)"
  let ?msg = "py ''Added '' @ [39] @ strip (new_waste f) @ [39] @
           py '' to dataset and saved to waste_data.csv. Refresh page to see changes.''"
  have a: "add_new_waste E f s = (St_success ?msg, s\<lparr>session_df := ?df, csv_file := Some ?df\<rparr>)"
    using ne by (rule add_new_waste_accepts)
  have y: "\<forall>v. strip (new_yield f) \<noteq> [] \<and> py_float E (strip (new_yield f)) = Some v \<longrightarrow>
            map_of (to_dict ?df (last (df_rows ?df))) (py ''Yield_pct'') = Some (Flt v)"
    by (intro allI impI new_record_field keys_distinct new_row_of_yield) simp_all
  show "\<exists>msg df'.
         add_new_waste E f s = (St_success msg, s\<lparr>session_df := df', csv_file := Some df'\<rparr>) \<and>
         waste_list df' = waste_list (session_df s) @ [strip (new_waste f)] \<and>
         map_of (to_dict df' (last (df_rows df'))) (py ''Waste Type'') =
           Some (Str (strip (new_waste f))) \<and>
         map_of (to_dict df' (last (df_rows df'))) (py ''Best Use'') =
           Some (Str (strip (new_best_use f))) \<and>
         map_of (to_dict df' (last (df_rows df'))) (py ''Compost Time'') =
           Some (Str (strip (new_compost f))) \<and>
         map_of (to_dict df' (last (df_rows df'))) (py ''Nutrient'') =
           Some (Str (strip (new_nutrient f))) \<and>
         map_of (to_dict df' (last (df_rows df'))) (py ''Tips'') =
           Some (Str (strip (new_tips f))) \<and>
         (\<forall>v. strip (new_yield f) \<noteq> [] \<and> py_float E (strip (new_yield f)) = Some v \<longrightarrow>
            map_of (to_dict df' (last (df_rows df'))) (py ''Yield_pct'') = Some (Flt v))"
    using a y
    by (intro exI [of _ ?msg] exI [of _ ?df])
       (simp add: waste_list_df_append new_record_name new_record_field keys_distinct
          new_row_of_fields)
qed

text \<open>
  The name of two spaces is rejected and the state stays; the name Rice Husk is appended
  as the fourth row, with yield 45, and stored.
\<close>

theorem add_new_waste_validates_witness:
  "strip (new_waste blank_form) = [] \<and>
   add_new_waste sample_ext blank_form sample_state =
     (St_error (py ''Enter a waste type name.''), sample_state) \<and>
   strip (new_waste husk_form) \<noteq> [] \<and>
   waste_list (session_df (snd (add_new_waste sample_ext husk_form sample_state))) =
     [py ''Rice Husk'', py ''Cow Manure'', py ''Cow Manure'', py ''Rice Husk''] \<and>
   csv_file (snd (add_new_waste sample_ext husk_form sample_state)) =
     Some (session_df (snd (add_new_waste sample_ext husk_form sample_state))) \<and>
   map_of (to_dict (session_df (snd (add_new_waste sample_ext husk_form sample_state)))
             (last (df_rows (session_df (snd (add_new_waste sample_ext husk_form sample_state))))))
     (py ''Yield_pct'') = Some (Flt (Fin 45))"
proof -
  have b: "strip (new_waste blank_form) = []"
    by (simp add: blank_form_def strip_samples)
  have h: "strip (new_waste husk_form) \<noteq> []"
    by (simp add: husk_form_def strip_samples) (simp add: py_def)
  have y: "strip (new_yield husk_form) \<noteq> [] \<and>
           py_float sample_ext (strip (new_yield husk_form)) = Some (Fin 45)"
    by (simp add: husk_form_def strip_samples sample_ext_def) (simp add: py_def)
  from add_new_waste_validates [of blank_form sample_ext sample_state] b
  have r1: "add_new_waste sample_ext blank_form sample_state =
     (St_error (py ''Enter a waste type name.''), sample_state)"
    by simp
  from add_new_waste_validates [of husk_form sample_ext sample_state] h
  obtain msg df' where
    a: "add_new_waste sample_ext husk_form sample_state =
          (St_success msg, sample_state\<lparr>session_df := df', csv_file := Some df'\<rparr>)"
    and w: "waste_list df' = waste_list (session_df sample_state) @ [strip (new_waste husk_form)]"
    and yv: "\<forall>v. strip (new_yield husk_form) \<noteq> [] \<and>
               py_float sample_ext (strip (new_yield husk_form)) = Some v \<longrightarrow>
               map_of (to_dict df' (last (df_rows df'))) (py ''Yield_pct'') = Some (Flt v)"
    by blast
  from yv y have yp: "map_of (to_dict df' (last (df_rows df'))) (py ''Yield_pct'') = Some (Flt (Fin 45))"
    by blast
  have wl: "waste_list df' = [py ''Rice Husk'', py ''Cow Manure'', py ''Cow Manure'', py ''Rice Husk'']"
    unfolding w by (simp add: sample_state_def dup_df_def waste_list_def husk_form_def strip_samples)
  from b h r1 wl yp show ?thesis by (simp add: a)
qed

section \<open>The matcher and the empty candidate list\<close>

lemma select_match_calls:
  assumes "select_match E selected user_text names = (r, calls)"
  shows "\<forall>c\<in>set calls. call_choices c = names"
  using assms by (auto simp: select_match_def split: if_splits prod.splits)

lemma recommend_calls:
  assumes "recommend E df selected user_text qty = Inr (out, calls)"
  shows "\<forall>c\<in>set calls. call_choices c = waste_list df"
proof -
  obtain mt ms cs where s: "select_match E selected user_text (waste_list df) = ((mt, ms), cs)"
    by (metis prod.exhaust)
  from select_match_calls [OF s] have c: "\<forall>c\<in>set cs. call_choices c = waste_list df" .
  from assms s have "calls = cs \<or> calls = cs @ [Extract (strip user_text) (waste_list df) 5]"
    by (auto simp: recommend_def Let_def split: if_splits sum.splits)
  with c show ?thesis by auto
qed

lemma dup_free_text:
  "recommend sample_ext dup_df [] (py ''cow dung'') 0 =
     Inr (Matched (py ''Cow Manure'') (Some 50)
            [(py ''Waste Type'', Str (py ''Cow Manure'')), (py ''Best Use'', Str (py ''Compost''))]
            None
            (format_report sample_ext
               [(py ''Waste Type'', Str (py ''Cow Manure'')), (py ''Best Use'', Str (py ''Compost''))]
               None None),
          [ExtractOne (py ''cow dung'') (waste_list dup_df)])"
proof -
  have s: "strip (py ''cow dung'') = py ''cow dung''"
    by (simp add: strip_def py_def isspace_def)
  have ne: "py ''cow dung'' \<noteq> []" "py ''Cow Manure'' \<noteq> []"
    by (simp_all add: py_def)
  have f: "find_best_match sample_ext (py ''cow dung'') (waste_list dup_df) 50 =
      (Some (py ''Cow Manure''), 50)"
    by (simp add: find_best_match_def extractOne_def waste_list_def dup_df_def sample_ext_def py_def)
  have m: "select_match sample_ext [] (py ''cow dung'') (waste_list dup_df) =
      ((Some (py ''Cow Manure''), Some 50), [ExtractOne (py ''cow dung'') (waste_list dup_df)])"
    by (simp add: select_match_def s ne f)
  show ?thesis
    by (simp add: recommend_def m ne dup_waste_row est_compost_def)
qed

text \<open>
  C2, as the code has it. The matcher is never given an empty candidate list and nothing
  fails with \<open>InvalidInput\<close>: an empty catalog stops the script at lines 31 to 33 before the
  matcher runs, so every call of the matcher that a shown page has made was given a
  non-empty list; and \<open>find_best_match\<close> itself, called on an empty list, takes the fallback
  \<^verbatim>\<open>return None, 0\<close> of line 56 and returns no match with score 0, whatever the query and
  the cutoff.
\<close>

theorem matcher_never_given_empty_list:
  "(df_rows (load_dataset file) = [] \<longrightarrow> run_script E file selected user_text qty = Stopped) \<and>
   (\<forall>out calls. run_script E file selected user_text qty = Shown (Inr (out, calls)) \<longrightarrow>
      (\<forall>c\<in>set calls. call_choices c \<noteq> [])) \<and>
   find_best_match E q [] cutoff = (None, 0)"
proof (intro conjI allI impI)
  assume "df_rows (load_dataset file) = []"
  then show "run_script E file selected user_text qty = Stopped"
    by (simp add: run_script_def)
next
  fix out calls
  assume r: "run_script E file selected user_text qty = Shown (Inr (out, calls))"
  then have ne: "df_rows (load_dataset file) \<noteq> []"
    by (auto simp: run_script_def Let_def split: if_splits)
  with r have "recommend E (load_dataset file) selected user_text qty = Inr (out, calls)"
    by (simp add: run_script_def Let_def)
  from recommend_calls [OF this] ne show "\<forall>c\<in>set calls. call_choices c \<noteq> []"
    by (simp add: waste_list_def)
next
  show "find_best_match E q [] cutoff = (None, 0)"
    by (simp add: find_best_match_def extractOne_def)
qed

text \<open>
  Without the file the script stops; with the sample catalog the free text cow dung makes
  one call of the matcher, on the three names of the catalog.
\<close>

theorem matcher_never_given_empty_list_witness:
  "df_rows (load_dataset None) = [] \<and>
   run_script sample_ext None [] (py ''cow dung'') 0 = Stopped \<and>
   (\<exists>out. run_script sample_ext (Some dup_df) [] (py ''cow dung'') 0 =
       Shown (Inr (out, [ExtractOne (py ''cow dung'') (waste_list dup_df)]))) \<and>
   call_choices (ExtractOne (py ''cow dung'') (waste_list dup_df)) \<noteq> []"
proof -
  have e: "df_rows (load_dataset None) = []"
    by (simp add: load_dataset_def)
  from matcher_never_given_empty_list [of None sample_ext "[]" "py ''cow dung''" 0] e
  have a: "run_script sample_ext None [] (py ''cow dung'') 0 = Stopped"
    by blast
  have r: "run_script sample_ext (Some dup_df) [] (py ''cow dung'') 0 =
      Shown (recommend sample_ext dup_df [] (py ''cow dung'') 0)"
    by (simp add: run_script_def load_dataset_def dup_df_def)
  from matcher_never_given_empty_list [of "Some dup_df" sample_ext "[]" "py ''cow dung''" 0]
    r [unfolded dup_free_text]
  have "\<forall>c\<in>set [ExtractOne (py ''cow dung'') (waste_list dup_df)]. call_choices c \<noteq> []"
    by blast
  then have b: "call_choices (ExtractOne (py ''cow dung'') (waste_list dup_df)) \<noteq> []"
    by simp
  from e a b r [unfolded dup_free_text] show ?thesis by blast
qed

text \<open>
  On the empty list the spec's contract fails with \<open>InvalidInput\<close> where the code returns a
  pair; and a script run without the file, or on a table without rows, stops and shows no
  such failure.
\<close>

theorem matcher_never_given_empty_list_counterexample:
  "find_best_match sample_ext (py ''cow dung'') [] 50 = (None, 0) \<and>
   match_spec sample_ext (py ''cow dung'') [] = Inl InvalidInput \<and>
   Inr (find_best_match sample_ext (py ''cow dung'') [] 50) \<noteq> match_spec sample_ext (py ''cow dung'') [] \<and>
   run_script sample_ext None [] (py ''cow dung'') 0 = Stopped \<and>
   run_script sample_ext (Some \<lparr>df_columns = [py ''Best Use''], df_rows = []\<rparr>) [] (py ''cow dung'') 0 =
     Stopped"
  by (simp add: find_best_match_def extractOne_def match_spec_def run_script_def load_dataset_def)

end
